theory Spec2Isabelle
  imports Main
begin

section \<open>Values of the schema records\<close>

text \<open>
  A declared record is a Go \<^verbatim>\<open>map[string]interface{}\<close>.  The values the code stores in
  it and asserts out of it have three dynamic types: \<^verbatim>\<open>string\<close>, \<^verbatim>\<open>bool\<close> and the
  client library's named string type \<^verbatim>\<open>xenAPI.VbdMode\<close> (stored by the binding and
  read flows).  A type assertion \<^verbatim>\<open>x.(string)\<close> on a missing key or on a value of
  another dynamic type panics.
\<close>

datatype iface = IString string | IBool bool | IVbdMode string

type_synonym schema = "string \<rightharpoonup> iface"

abbreviation vbdSchemaVdiUUID :: string where "vbdSchemaVdiUUID \<equiv> ''vdi_uuid''"
abbreviation vbdSchemaBootable :: string where "vbdSchemaBootable \<equiv> ''bootable''"
abbreviation vbdSchemaMode :: string where "vbdSchemaMode \<equiv> ''mode''"
abbreviation vbdSchemaUserDevice :: string where "vbdSchemaUserDevice \<equiv> ''user_device''"
abbreviation vbdSchemaTemplateDevice :: string where "vbdSchemaTemplateDevice \<equiv> ''is_from_template''"

text \<open>A Go call either returns its results or panics.\<close>

datatype 'a outcome = Return 'a | Panic

definition is_string :: "iface option \<Rightarrow> bool" where
  "is_string v = (case v of Some (IString _) \<Rightarrow> True | _ \<Rightarrow> False)"

definition is_bool :: "iface option \<Rightarrow> bool" where
  "is_bool v = (case v of Some (IBool _) \<Rightarrow> True | _ \<Rightarrow> False)"

text \<open>
  The records the framework hands to the set-hash function: the five keys of
  \<^verbatim>\<open>resourceVBD\<close>, each with the dynamic type its schema declares.
\<close>

definition vbd_record :: "schema \<Rightarrow> bool" where
  "vbd_record m \<longleftrightarrow>
     is_string (m vbdSchemaUserDevice) \<and> is_bool (m vbdSchemaTemplateDevice) \<and>
     is_string (m vbdSchemaMode) \<and> is_bool (m vbdSchemaBootable) \<and>
     is_string (m vbdSchemaVdiUUID)"

section \<open>Strings\<close>

text \<open>
  \<^verbatim>\<open>strings.ToLower\<close> on the bytes of a string: the letters \<^verbatim>\<open>A\<close> to \<^verbatim>\<open>Z\<close> move to
  \<^verbatim>\<open>a\<close> to \<^verbatim>\<open>z\<close>, every other byte stays.  This is Go's function on ASCII strings; on
  other strings Go maps code points, and no code point outside ASCII has \<^verbatim>\<open>r\<close>, \<^verbatim>\<open>o\<close>
  or \<^verbatim>\<open>w\<close> as its lower case.
\<close>

definition lower_byte :: "char \<Rightarrow> char" where
  "lower_byte c =
     (if (65::nat) \<le> of_char c \<and> of_char c \<le> (90::nat)
      then char_of (of_char c + (32::nat)) else c)"

definition ToLower :: "string \<Rightarrow> string" where
  "ToLower s = map lower_byte s"

text \<open>The verb \<^verbatim>\<open>%t\<close> of \<^verbatim>\<open>fmt.Sprintf\<close>.\<close>

definition fmt_bool :: "bool \<Rightarrow> string" where
  "fmt_bool b = (if b then ''true'' else ''false'')"

section \<open>The fingerprint function\<close>

text \<open>
  The string \<^verbatim>\<open>vbdHash\<close> writes into its buffer.  The byte counter of the source is
  only logged.
\<close>

definition vbdHash_buf :: "string \<Rightarrow> bool \<Rightarrow> string \<Rightarrow> bool \<Rightarrow> string \<Rightarrow> string" where
  "vbdHash_buf userDevice isTemplateDevice mode bootable vdiUUID =
     (if \<not> isTemplateDevice
      then (''-'' @ vdiUUID)
           @ (if mode \<noteq> '''' then ''-'' @ ToLower mode else '''')
           @ (''-'' @ fmt_bool bootable)
      else userDevice)"

text \<open>
  Modelled from the spec: \<^verbatim>\<open>hashcode.String\<close> of the framework's helper package is not
  part of the sources; the spec calls it a standard string-hash function producing a
  positive integer.  The function is the parameter \<open>hashcode_String\<close> of \<open>vbdHash\<close>,
  and \<open>positive_hash\<close> is what the spec says of it.
\<close>

definition positive_hash :: "(string \<Rightarrow> int) \<Rightarrow> bool" where
  "positive_hash hashcode_String \<longleftrightarrow> (\<forall>s. 0 < hashcode_String s)"

definition vbdHash :: "(string \<Rightarrow> int) \<Rightarrow> schema \<Rightarrow> int outcome" where
  "vbdHash hashcode_String m =
     (case m vbdSchemaUserDevice of
        Some (IString userDevice) \<Rightarrow>
          (case m vbdSchemaTemplateDevice of
             Some (IBool isTemplateDevice) \<Rightarrow>
               (case m vbdSchemaMode of
                  Some (IString mode) \<Rightarrow>
                    (case m vbdSchemaBootable of
                       Some (IBool bootable) \<Rightarrow>
                         (case m vbdSchemaVdiUUID of
                            Some (IString vdiUUID) \<Rightarrow>
                              Return (hashcode_String
                                (vbdHash_buf userDevice isTemplateDevice mode bootable vdiUUID))
                          | _ \<Rightarrow> Panic)
                     | _ \<Rightarrow> Panic)
                | _ \<Rightarrow> Panic)
           | _ \<Rightarrow> Panic)
      | _ \<Rightarrow> Panic)"

section \<open>Descriptors and the remote API\<close>

text \<open>
  Modelled from the spec: the constants of the client library (\<^verbatim>\<open>xenAPI.VbdMode\<close>,
  \<^verbatim>\<open>xenAPI.VbdType\<close> and \<^verbatim>\<open>xenAPI.VMPowerState\<close>, all string types) are not part of the
  sources.  The spec gives the two modes as \<^verbatim>\<open>RO\<close> and \<^verbatim>\<open>RW\<close>, the two kinds as disk
  and optical, and the power state as running.  Of the strings of the kinds and of the
  power state, the flows only compare them; any other string is a kind the read flow
  does not support.
\<close>

definition VbdModeRO :: string where "VbdModeRO = ''RO''"
definition VbdModeRW :: string where "VbdModeRW = ''RW''"
definition VbdTypeCD :: string where "VbdTypeCD = ''CD''"
definition VbdTypeDisk :: string where "VbdTypeDisk = ''Disk''"
definition VMPowerStateRunning :: string where "VMPowerStateRunning = ''Running''"

text \<open>
  Modelled from the spec: the descriptor structs and \<^verbatim>\<open>xenAPI.VBDRecord\<close> are declared
  outside the sources.  The records below have the fields the source reads and writes;
  references and UUIDs are strings, a nil pointer is \<open>None\<close>.  The UUID of an image
  is \<open>VDI_UUID\<close>, and the fields of the creation record that share a name with a
  field of the attachment descriptor carry the prefix \<open>rec_\<close>.
\<close>

record VDIDescriptor =
  VDIRef :: string
  VDI_UUID :: string

record VMDescriptor =
  VMRef :: string
  Name :: string
  PowerState :: string

record VBDRecord =
  rec_Type :: string
  rec_Mode :: string
  rec_Bootable :: bool
  rec_VM :: string
  rec_VDI :: string
  Empty :: bool
  Userdevice :: string

record VBDDescriptor =
  VBDRef :: string
  UUID :: string
  Type :: string
  Mode :: string
  Bootable :: bool
  UserDevice :: string
  IsTemplateDevice :: bool
  VDI :: "VDIDescriptor option"
  VM :: "VMDescriptor option"

text \<open>
  The errors of the flows: an error handed back by the remote side, and the four
  \<^verbatim>\<open>fmt.Errorf\<close> values of the source with the argument of their format.
\<close>

datatype error =
    RemoteError string
  | TemplateVBDNotReferenced string
  | NotValidMode string
  | UnsupportedVBDType string
  | NoAvailableDevices

text \<open>The remote calls a flow issues, in the order it issues them.\<close>

datatype call =
    VM_GetVBDs string
  | VM_GetAllowedVBDDevices string
  | VBD_Create VBDRecord
  | VBD_Plug string
  | VDI_Destroy string
  | VBD_Query string
  | VBD_Commit VBDDescriptor
  | VDI_Load string

text \<open>
  Modelled from the spec: the client calls and the descriptor methods \<^verbatim>\<open>Query\<close>,
  \<^verbatim>\<open>Commit\<close> and \<^verbatim>\<open>Load\<close> are not part of the sources.  Each is a function of the
  calls issued so far and of its argument, so the remote side may answer the same call
  differently as its state changes.  \<open>Query\<close> and \<open>Load\<close> fill the fields of the
  descriptor they are called on or fail; \<open>Commit\<close>, \<open>Plug\<close> and \<open>Destroy\<close>
  return an error or nil.
\<close>

record remote =
  GetVBDs :: "call list \<Rightarrow> string \<Rightarrow> error + string list"
  GetAllowedVBDDevices :: "call list \<Rightarrow> string \<Rightarrow> error + string list"
  Create :: "call list \<Rightarrow> VBDRecord \<Rightarrow> error + string"
  Plug :: "call list \<Rightarrow> string \<Rightarrow> error option"
  Destroy :: "call list \<Rightarrow> string \<Rightarrow> error option"
  Query :: "call list \<Rightarrow> VBDDescriptor \<Rightarrow> error + VBDDescriptor"
  Commit :: "call list \<Rightarrow> VBDDescriptor \<Rightarrow> error option"
  Load :: "call list \<Rightarrow> VDIDescriptor \<Rightarrow> error + VDIDescriptor"

text \<open>The composite literal \<^verbatim>\<open>&VBDDescriptor{VBDRef: ref}\<close>: every other field is zero.\<close>

definition new_VBD :: "string \<Rightarrow> VBDDescriptor" where
  "new_VBD ref = \<lparr>VBDRef = ref, UUID = '''', Type = '''', Mode = '''', Bootable = False,
     UserDevice = '''', IsTemplateDevice = False, VDI = None, VM = None\<rparr>"

section \<open>Loops over a slice\<close>

text \<open>
  \<^verbatim>\<open>for _, x := range xs { ... }\<close>: the body either falls through to the next element
  with the new state, or leaves the function (a \<^verbatim>\<open>return\<close> or a panic).
\<close>

datatype ('st, 'r) iter = Continue 'st | Break 'r

fun range_loop :: "('x \<Rightarrow> 'st \<Rightarrow> ('st, 'r) iter) \<Rightarrow> 'x list \<Rightarrow> 'st \<Rightarrow> ('st, 'r) iter" where
  "range_loop body [] st = Continue st"
| "range_loop body (x # xs) st =
     (case body x st of
        Continue st' \<Rightarrow> range_loop body xs st'
      | Break r \<Rightarrow> Break r)"

section \<open>The template flows\<close>

text \<open>\<^verbatim>\<open>queryTemplateVBDs\<close>: the attachments of the VM that come from its template.\<close>

definition queryTemplateVBDs_body ::
  "remote \<Rightarrow> string \<Rightarrow> VBDDescriptor list \<times> call list \<Rightarrow>
   (VBDDescriptor list \<times> call list,
    (VBDDescriptor list option \<times> error option) \<times> call list) iter" where
  "queryTemplateVBDs_body R vmVBDRef st =
     (case st of (vbds, h) \<Rightarrow>
        (case Query R h (new_VBD vmVBDRef) of
           Inl err \<Rightarrow> Break ((None, Some err), h @ [VBD_Query vmVBDRef])
         | Inr vbd \<Rightarrow>
             if IsTemplateDevice vbd
             then Continue (vbds @ [vbd], h @ [VBD_Query vmVBDRef])
             else Continue (vbds, h @ [VBD_Query vmVBDRef])))"

definition queryTemplateVBDs ::
  "remote \<Rightarrow> VMDescriptor \<Rightarrow> call list \<Rightarrow>
   (VBDDescriptor list option \<times> error option) \<times> call list" where
  "queryTemplateVBDs R vm h =
     (case GetVBDs R h (VMRef vm) of
        Inl err \<Rightarrow> ((Some [], Some err), h @ [VM_GetVBDs (VMRef vm)])
      | Inr vmVBDRefs \<Rightarrow>
          (case range_loop (queryTemplateVBDs_body R) vmVBDRefs ([], h @ [VM_GetVBDs (VMRef vm)]) of
             Break r \<Rightarrow> r
           | Continue (vbds, h') \<Rightarrow> ((Some vbds, None), h')))"

text \<open>
  The inner loop of \<^verbatim>\<open>readTemplateVBDsToSchema\<close> over the declared records: the first
  record marked template-origin with the slot of \<open>vbd\<close> is bound to it.  The records
  are Go maps, which the loop updates in place; the model returns the updated slice.
\<close>

datatype matched = Found | NotFound | CommitFailed error | Panicked

fun match_schema ::
  "remote \<Rightarrow> VBDDescriptor \<Rightarrow> schema list \<Rightarrow> call list \<Rightarrow> matched \<times> schema list \<times> call list" where
  "match_schema R vbd [] h = (NotFound, [], h)"
| "match_schema R vbd (data # s) h =
     (case data vbdSchemaUserDevice of
        Some (IString userDevice) \<Rightarrow>
          (case data vbdSchemaTemplateDevice of
             Some (IBool isTemplateDevice) \<Rightarrow>
               if isTemplateDevice \<and> userDevice = UserDevice vbd
               then (let vbd' = vbd\<lparr>IsTemplateDevice := True\<rparr> in
                     case Commit R h vbd' of
                       Some err \<Rightarrow> (CommitFailed err, data # s, h @ [VBD_Commit vbd'])
                     | None \<Rightarrow>
                         (case VDI vbd' of
                            None \<Rightarrow>
                              (Panicked,
                               data(vbdSchemaUserDevice \<mapsto> IString (UserDevice vbd')) # s,
                               h @ [VBD_Commit vbd'])
                          | Some vdi \<Rightarrow>
                              (Found,
                               data(vbdSchemaUserDevice \<mapsto> IString (UserDevice vbd'),
                                    vbdSchemaVdiUUID \<mapsto> IString (VDI_UUID vdi),
                                    vbdSchemaBootable \<mapsto> IBool (Bootable vbd'),
                                    vbdSchemaMode \<mapsto> IVbdMode (Mode vbd'),
                                    vbdSchemaTemplateDevice \<mapsto> IBool True) # s,
                               h @ [VBD_Commit vbd'])))
               else (case match_schema R vbd s h of (r, s', h') \<Rightarrow> (r, data # s', h'))
           | _ \<Rightarrow> (Panicked, data # s, h))
      | _ \<Rightarrow> (Panicked, data # s, h))"

text \<open>
  The body of the outer loop.  Its state is the variable \<^verbatim>\<open>err\<close>, the declared records
  and the calls issued.  Where \<^verbatim>\<open>Query\<close> fails the source returns the variable
  \<^verbatim>\<open>err\<close>, not the error of \<^verbatim>\<open>Query\<close>.
\<close>

definition readTemplateVBDsToSchema_body ::
  "remote \<Rightarrow> string \<Rightarrow> string \<Rightarrow> error option \<times> schema list \<times> call list \<Rightarrow>
   (error option \<times> schema list \<times> call list,
    error option outcome \<times> schema list \<times> call list) iter" where
  "readTemplateVBDsToSchema_body R vbdType vmVBDRef st =
     (case st of (err, s, h) \<Rightarrow>
        (case Query R h (new_VBD vmVBDRef) of
           Inl _ \<Rightarrow> Break (Return err, s, h @ [VBD_Query vmVBDRef])
         | Inr vbd \<Rightarrow>
             if vbdType \<noteq> Type vbd then Continue (err, s, h @ [VBD_Query vmVBDRef])
             else (case match_schema R vbd s (h @ [VBD_Query vmVBDRef]) of
                     (Found, s', h') \<Rightarrow> Continue (None, s', h')
                   | (NotFound, s', h') \<Rightarrow>
                       Break (Return (Some (TemplateVBDNotReferenced (UUID vbd))), s', h')
                   | (CommitFailed e, s', h') \<Rightarrow> Break (Return (Some e), s', h')
                   | (Panicked, s', h') \<Rightarrow> Break (Panic, s', h'))))"

definition readTemplateVBDsToSchema ::
  "remote \<Rightarrow> VMDescriptor \<Rightarrow> schema list \<Rightarrow> string \<Rightarrow> call list \<Rightarrow>
   error option outcome \<times> schema list \<times> call list" where
  "readTemplateVBDsToSchema R vm s vbdType h =
     (case GetVBDs R h (VMRef vm) of
        Inl err \<Rightarrow> (Return (Some err), s, h @ [VM_GetVBDs (VMRef vm)])
      | Inr vmVBDRefs \<Rightarrow>
          (case range_loop (readTemplateVBDsToSchema_body R vbdType) vmVBDRefs
                  (None, s, h @ [VM_GetVBDs (VMRef vm)]) of
             Break r \<Rightarrow> r
           | Continue (err, s', h') \<Rightarrow> (Return None, s', h')))"

text \<open>\<^verbatim>\<open>destroyTemplateVDIs\<close>: the images of the disk attachments are destroyed.\<close>

definition destroyTemplateVDIs_body ::
  "remote \<Rightarrow> VBDDescriptor \<Rightarrow> call list \<Rightarrow> (call list, error option outcome \<times> call list) iter" where
  "destroyTemplateVDIs_body R vbd h =
     (if Type vbd \<noteq> VbdTypeDisk then Continue h
      else (case VDI vbd of
              None \<Rightarrow> Break (Panic, h)
            | Some vdi \<Rightarrow>
                (case Destroy R h (VDIRef vdi) of
                   Some err \<Rightarrow> Break (Return (Some err), h @ [VDI_Destroy (VDIRef vdi)])
                 | None \<Rightarrow> Continue (h @ [VDI_Destroy (VDIRef vdi)]))))"

definition destroyTemplateVDIs ::
  "remote \<Rightarrow> VBDDescriptor list \<Rightarrow> call list \<Rightarrow> error option outcome \<times> call list" where
  "destroyTemplateVDIs R vbds h =
     (case range_loop (destroyTemplateVDIs_body R) vbds h of
        Break r \<Rightarrow> r
      | Continue h' \<Rightarrow> (Return None, h'))"

section \<open>Records and descriptors\<close>

text \<open>
  The block \<^verbatim>\<open>if id, ok := s[vbdSchemaVdiUUID]; ok { ... }\<close> of \<^verbatim>\<open>readVBDFromSchema\<close>:
  the image of the record, looked up by UUID whenever the key is present.
\<close>

definition readVBDFromSchema_vdi ::
  "remote \<Rightarrow> schema \<Rightarrow> call list \<Rightarrow>
   (VDIDescriptor option \<times> error option) outcome \<times> call list" where
  "readVBDFromSchema_vdi R s h =
     (case s vbdSchemaVdiUUID of
        None \<Rightarrow> (Return (None, None), h)
      | Some (IString id') \<Rightarrow>
          (case Load R h \<lparr>VDIRef = '''', VDI_UUID = id'\<rparr> of
             Inl err \<Rightarrow> (Return (None, Some err), h @ [VDI_Load id'])
           | Inr vdi \<Rightarrow> (Return (Some vdi, None), h @ [VDI_Load id']))
      | Some _ \<Rightarrow> (Panic, h))"

text \<open>The descriptor \<^verbatim>\<open>readVBDFromSchema\<close> builds: the fields it does not name are zero.\<close>

definition schema_VBD :: "VDIDescriptor option \<Rightarrow> bool \<Rightarrow> string \<Rightarrow> string \<Rightarrow> VBDDescriptor" where
  "schema_VBD vdi bootable mode userDevice =
     \<lparr>VBDRef = '''', UUID = '''', Type = '''', Mode = mode, Bootable = bootable,
      UserDevice = userDevice, IsTemplateDevice = False, VDI = vdi, VM = None\<rparr>"

definition readVBDFromSchema ::
  "remote \<Rightarrow> schema \<Rightarrow> call list \<Rightarrow>
   (VBDDescriptor option \<times> error option) outcome \<times> call list" where
  "readVBDFromSchema R s h =
     (case s vbdSchemaUserDevice of
        Some (IString userDevice) \<Rightarrow>
          (case readVBDFromSchema_vdi R s h of
             (Panic, h') \<Rightarrow> (Panic, h')
           | (Return (_, Some err), h') \<Rightarrow> (Return (None, Some err), h')
           | (Return (vdi, None), h') \<Rightarrow>
               (case s vbdSchemaBootable of
                  Some (IBool bootable) \<Rightarrow>
                    (case s vbdSchemaMode of
                       Some (IString mode) \<Rightarrow>
                         if ToLower mode = ToLower VbdModeRO
                         then (Return (Some (schema_VBD vdi bootable VbdModeRO userDevice), None), h')
                         else if ToLower mode = ToLower VbdModeRW
                         then (Return (Some (schema_VBD vdi bootable VbdModeRW userDevice), None), h')
                         else (Return (None, Some (NotValidMode mode)), h')
                     | _ \<Rightarrow> (Panic, h'))
                | _ \<Rightarrow> (Panic, h')))
      | _ \<Rightarrow> (Panic, h))"

definition fillVBDSchema :: "VBDDescriptor \<Rightarrow> schema" where
  "fillVBDSchema vbd =
     [vbdSchemaVdiUUID \<mapsto> IString (case VDI vbd of Some vdi \<Rightarrow> VDI_UUID vdi | None \<Rightarrow> ''''),
      vbdSchemaBootable \<mapsto> IBool (Bootable vbd),
      vbdSchemaMode \<mapsto> IVbdMode (Mode vbd),
      vbdSchemaUserDevice \<mapsto> IString (UserDevice vbd),
      vbdSchemaTemplateDevice \<mapsto> IBool (IsTemplateDevice vbd)]"

section \<open>The read flow\<close>

text \<open>
  \<^verbatim>\<open>readVBDs\<close> returns three values: the hard drives, the optical drives and the
  error; a nil slice is \<open>None\<close>.  The \<^verbatim>\<open>break\<close> of the first case leaves the
  \<^verbatim>\<open>switch\<close>, not the loop.
\<close>

definition readVBDs_body ::
  "remote \<Rightarrow> string \<Rightarrow> (schema list \<times> schema list) \<times> call list \<Rightarrow>
   ((schema list \<times> schema list) \<times> call list,
    (schema list option \<times> schema list option \<times> error option) \<times> call list) iter" where
  "readVBDs_body R vbdRef st =
     (case st of ((hdd, cdrom), h) \<Rightarrow>
        (case Query R h (new_VBD vbdRef) of
           Inl err \<Rightarrow> Break ((None, None, Some err), h @ [VBD_Query vbdRef])
         | Inr vbd \<Rightarrow>
             (let vbdData = fillVBDSchema vbd in
              if Type vbd = VbdTypeCD
              then Continue ((hdd, cdrom @ [vbdData]), h @ [VBD_Query vbdRef])
              else if Type vbd = VbdTypeDisk
              then Continue ((hdd @ [vbdData], cdrom), h @ [VBD_Query vbdRef])
              else Break ((None, None, Some (UnsupportedVBDType (Type vbd))),
                          h @ [VBD_Query vbdRef]))))"

definition readVBDs ::
  "remote \<Rightarrow> VMDescriptor \<Rightarrow> call list \<Rightarrow>
   (schema list option \<times> schema list option \<times> error option) \<times> call list" where
  "readVBDs R vm h =
     (case GetVBDs R h (VMRef vm) of
        Inl err \<Rightarrow> ((None, None, Some err), h @ [VM_GetVBDs (VMRef vm)])
      | Inr vmVBDs \<Rightarrow>
          (case range_loop (readVBDs_body R) vmVBDs (([], []), h @ [VM_GetVBDs (VMRef vm)]) of
             Break r \<Rightarrow> r
           | Continue ((hdd, cdrom), h') \<Rightarrow> ((Some hdd, Some cdrom, None), h')))"

text \<open>
  What the remote side answers to \<^verbatim>\<open>Query\<close> on the references \<open>refs\<close>, asked one
  after the other from the history \<open>h\<close>.
\<close>

fun query_answers :: "remote \<Rightarrow> call list \<Rightarrow> string list \<Rightarrow> (error + VBDDescriptor) list" where
  "query_answers R h [] = []"
| "query_answers R h (ref # refs) =
     Query R h (new_VBD ref) # query_answers R (h @ [VBD_Query ref]) refs"

section \<open>The creation flow\<close>

text \<open>
  The record \<^verbatim>\<open>createVBD\<close> hands to \<^verbatim>\<open>VBD.Create\<close>, with the slot \<open>device\<close> chosen
  from the allowed ones.
\<close>

definition vbdObject :: "VBDDescriptor \<Rightarrow> VMDescriptor \<Rightarrow> string \<Rightarrow> VBDRecord" where
  "vbdObject vbd vm device =
     \<lparr>rec_Type = Type vbd, rec_Mode = Mode vbd, rec_Bootable = Bootable vbd,
      rec_VM = VMRef vm,
      rec_VDI = (case VDI vbd of Some vdi \<Rightarrow> VDIRef vdi | None \<Rightarrow> ''''),
      Empty = (VDI vbd = None), Userdevice = device\<rparr>"

definition createVBD ::
  "remote \<Rightarrow> VBDDescriptor \<Rightarrow> call list \<Rightarrow>
   (VBDDescriptor option \<times> error option) outcome \<times> call list" where
  "createVBD R vbd h =
     (case VM vbd of
        None \<Rightarrow> (Panic, h)
      | Some vm \<Rightarrow>
          (case GetAllowedVBDDevices R h (VMRef vm) of
             Inl err \<Rightarrow> (Return (None, Some err), h @ [VM_GetAllowedVBDDevices (VMRef vm)])
           | Inr [] \<Rightarrow>
               (Return (None, Some NoAvailableDevices), h @ [VM_GetAllowedVBDDevices (VMRef vm)])
           | Inr (device # _) \<Rightarrow>
               (let h1 = h @ [VM_GetAllowedVBDDevices (VMRef vm)];
                    h2 = h1 @ [VBD_Create (vbdObject vbd vm device)] in
                case Create R h1 (vbdObject vbd vm device) of
                  Inl err \<Rightarrow> (Return (None, Some err), h2)
                | Inr vbdRef \<Rightarrow>
                    (let h3 = h2 @ [VBD_Query vbdRef] in
                     case Query R h2 (vbd\<lparr>VBDRef := vbdRef\<rparr>) of
                       Inl err \<Rightarrow> (Return (None, Some err), h3)
                     | Inr vbd' \<Rightarrow>
                         (case VM vbd' of
                            None \<Rightarrow> (Panic, h3)
                          | Some vm' \<Rightarrow>
                              if PowerState vm' = VMPowerStateRunning
                              then (case Plug R h3 vbdRef of
                                      Some err \<Rightarrow> (Return (None, Some err), h3 @ [VBD_Plug vbdRef])
                                    | None \<Rightarrow> (Return (Some vbd', None), h3 @ [VBD_Plug vbdRef]))
                              else (Return (Some vbd', None), h3))))))"

section \<open>Binding records to template attachments\<close>



section \<open>Answers of the remote side to the destroy calls\<close>

text \<open>
  What the remote side answers to \<^verbatim>\<open>VDI.Destroy\<close> on the image references \<open>refs\<close>,
  asked one after the other from the history \<open>h\<close>.
\<close>

fun destroy_answers :: "remote \<Rightarrow> call list \<Rightarrow> string list \<Rightarrow> error option list" where
  "destroy_answers R h [] = []"
| "destroy_answers R h (ref # refs) =
     Destroy R h ref # destroy_answers R (h @ [VDI_Destroy ref]) refs"

section \<open>A remote side to run the flows on\<close>

text \<open>
  A VM with three attachments: a template disk in slot 0, a template optical drive in
  slot 3 and a second template disk in slot 1.  Every call succeeds, except the lookup of
  an image with the empty UUID; an attachment created later is queried as it was sent.
\<close>

definition example_vm :: VMDescriptor where
  "example_vm = \<lparr>VMRef = ''OpaqueRef:vm'', Name = ''vm'', PowerState = ''Halted''\<rparr>"

definition example_vbd0 :: VBDDescriptor where
  "example_vbd0 =
     \<lparr>VBDRef = ''OpaqueRef:vbd0'', UUID = ''uuid-a'', Type = VbdTypeDisk, Mode = VbdModeRW,
      Bootable = True, UserDevice = ''0'', IsTemplateDevice = True,
      VDI = Some \<lparr>VDIRef = ''OpaqueRef:vdi0'', VDI_UUID = ''image-a''\<rparr>,
      VM = Some example_vm\<rparr>"

definition example_vbd1 :: VBDDescriptor where
  "example_vbd1 =
     \<lparr>VBDRef = ''OpaqueRef:vbd1'', UUID = ''uuid-b'', Type = VbdTypeCD, Mode = VbdModeRO,
      Bootable = False, UserDevice = ''3'', IsTemplateDevice = True, VDI = None,
      VM = Some example_vm\<rparr>"

definition example_vbd2 :: VBDDescriptor where
  "example_vbd2 =
     \<lparr>VBDRef = ''OpaqueRef:vbd2'', UUID = ''uuid-c'', Type = VbdTypeDisk, Mode = VbdModeRW,
      Bootable = False, UserDevice = ''1'', IsTemplateDevice = True,
      VDI = Some \<lparr>VDIRef = ''OpaqueRef:vdi2'', VDI_UUID = ''image-c''\<rparr>,
      VM = Some example_vm\<rparr>"

definition example_vbd4 :: VBDDescriptor where
  "example_vbd4 =
     \<lparr>VBDRef = ''OpaqueRef:vbd4'', UUID = ''uuid-x'', Type = VbdTypeDisk, Mode = VbdModeRW,
      Bootable = False, UserDevice = ''2'', IsTemplateDevice = False,
      VDI = Some \<lparr>VDIRef = ''OpaqueRef:vdi4'', VDI_UUID = ''image-d''\<rparr>,
      VM = Some example_vm\<rparr>"

definition example_vbd5 :: VBDDescriptor where
  "example_vbd5 =
     \<lparr>VBDRef = ''OpaqueRef:vbd5'', UUID = ''uuid-y'', Type = VbdTypeDisk, Mode = VbdModeRW,
      Bootable = False, UserDevice = ''0'', IsTemplateDevice = False,
      VDI = Some \<lparr>VDIRef = ''OpaqueRef:vdi5'', VDI_UUID = ''image-e''\<rparr>,
      VM = Some example_vm\<rparr>"

definition example_vbd6 :: VBDDescriptor where
  "example_vbd6 =
     \<lparr>VBDRef = ''OpaqueRef:vbd6'', UUID = ''uuid-z'', Type = VbdTypeCD, Mode = VbdModeRO,
      Bootable = False, UserDevice = ''4'', IsTemplateDevice = True, VDI = None,
      VM = Some example_vm\<rparr>"

definition example_Query :: "VBDDescriptor \<Rightarrow> error + VBDDescriptor" where
  "example_Query d =
     (if VBDRef d = ''OpaqueRef:vbd0'' then Inr example_vbd0
      else if VBDRef d = ''OpaqueRef:vbd1'' then Inr example_vbd1
      else if VBDRef d = ''OpaqueRef:vbd2'' then Inr example_vbd2
      else if VBDRef d = ''OpaqueRef:vbd4'' then Inr example_vbd4
      else if VBDRef d = ''OpaqueRef:vbd5'' then Inr example_vbd5
      else if VBDRef d = ''OpaqueRef:vbd6'' then Inr example_vbd6
      else Inr (d\<lparr>UUID := ''uuid-d'', VM := Some example_vm\<rparr>))"

definition example_remote :: remote where
  "example_remote =
     \<lparr>GetVBDs = (\<lambda>h vm. Inr [''OpaqueRef:vbd0'', ''OpaqueRef:vbd1'', ''OpaqueRef:vbd2'']),
      GetAllowedVBDDevices = (\<lambda>h vm. Inr [''1'', ''2'']),
      Create = (\<lambda>h r. Inr ''OpaqueRef:vbd3''),
      Plug = (\<lambda>h ref. None),
      Destroy = (\<lambda>h ref. None),
      Query = (\<lambda>h d. example_Query d),
      Commit = (\<lambda>h d. None),
      Load = (\<lambda>h d. if VDI_UUID d = '''' then Inl (RemoteError ''UUID_INVALID'')
                      else Inr (d\<lparr>VDIRef := ''OpaqueRef:vdi9''\<rparr>))\<rparr>"

text \<open>A string hash with positive values, to run the fingerprint function on.\<close>

definition example_hash :: "string \<Rightarrow> int" where
  "example_hash s = int (length s) + 1"


definition example_template_record :: schema where
  "example_template_record =
     [vbdSchemaUserDevice \<mapsto> IString ''0'', vbdSchemaTemplateDevice \<mapsto> IBool True,
      vbdSchemaMode \<mapsto> IString '''', vbdSchemaBootable \<mapsto> IBool False,
      vbdSchemaVdiUUID \<mapsto> IString '''']"



section \<open>Dynamic types\<close>

lemma is_stringE: "is_string v \<Longrightarrow> \<exists>s. v = Some (IString s)"
  by (auto simp: is_string_def split: option.splits iface.splits)

lemma is_boolE: "is_bool v \<Longrightarrow> \<exists>b. v = Some (IBool b)"
  by (auto simp: is_bool_def split: option.splits iface.splits)

section \<open>Lower-casing\<close>

lemma of_char_lower_byte:
  "(of_char (lower_byte c) :: nat) =
     (if 65 \<le> (of_char c :: nat) \<and> (of_char c :: nat) \<le> 90 then of_char c + 32
      else of_char c)"
  by (simp add: lower_byte_def)

lemma lower_byte_eq_iff:
  "lower_byte c = d \<longleftrightarrow>
     (if 65 \<le> (of_char c :: nat) \<and> (of_char c :: nat) \<le> 90 then of_char c + 32
      else of_char c) = (of_char d :: nat)"
  unfolding of_char_lower_byte [symmetric] by (simp only: of_char_eq_iff)

lemma char_eq_code: "(of_char d :: nat) = n \<Longrightarrow> c = d \<longleftrightarrow> (of_char c :: nat) = n"
  by (metis of_char_eq_iff)

lemma lower_byte_r: "lower_byte c = CHR ''r'' \<longleftrightarrow> c = CHR ''r'' \<or> c = CHR ''R''"
proof -
  have "c = CHR ''r'' \<longleftrightarrow> (of_char c :: nat) = 114" by (rule char_eq_code) simp
  moreover have "c = CHR ''R'' \<longleftrightarrow> (of_char c :: nat) = 82" by (rule char_eq_code) simp
  moreover have "lower_byte c = CHR ''r'' \<longleftrightarrow> (of_char c :: nat) = 114 \<or> (of_char c :: nat) = 82"
    unfolding lower_byte_eq_iff by (simp split: if_splits) arith
  ultimately show ?thesis by simp
qed

lemma lower_byte_o: "lower_byte c = CHR ''o'' \<longleftrightarrow> c = CHR ''o'' \<or> c = CHR ''O''"
proof -
  have "c = CHR ''o'' \<longleftrightarrow> (of_char c :: nat) = 111" by (rule char_eq_code) simp
  moreover have "c = CHR ''O'' \<longleftrightarrow> (of_char c :: nat) = 79" by (rule char_eq_code) simp
  moreover have "lower_byte c = CHR ''o'' \<longleftrightarrow> (of_char c :: nat) = 111 \<or> (of_char c :: nat) = 79"
    unfolding lower_byte_eq_iff by (simp split: if_splits) arith
  ultimately show ?thesis by simp
qed

lemma lower_byte_w: "lower_byte c = CHR ''w'' \<longleftrightarrow> c = CHR ''w'' \<or> c = CHR ''W''"
proof -
  have "c = CHR ''w'' \<longleftrightarrow> (of_char c :: nat) = 119" by (rule char_eq_code) simp
  moreover have "c = CHR ''W'' \<longleftrightarrow> (of_char c :: nat) = 87" by (rule char_eq_code) simp
  moreover have "lower_byte c = CHR ''w'' \<longleftrightarrow> (of_char c :: nat) = 119 \<or> (of_char c :: nat) = 87"
    unfolding lower_byte_eq_iff by (simp split: if_splits) arith
  ultimately show ?thesis by simp
qed

lemma ToLower_two:
  "ToLower m = [a, b] \<longleftrightarrow> (\<exists>x y. m = [x, y] \<and> lower_byte x = a \<and> lower_byte y = b)"
  by (auto simp: ToLower_def map_eq_Cons_conv)

lemma ToLower_ro: "ToLower m = ''ro'' \<longleftrightarrow> m \<in> {''ro'', ''rO'', ''Ro'', ''RO''}"
  unfolding ToLower_two lower_byte_r lower_byte_o by auto

lemma ToLower_rw: "ToLower m = ''rw'' \<longleftrightarrow> m \<in> {''rw'', ''rW'', ''Rw'', ''RW''}"
  unfolding ToLower_two lower_byte_r lower_byte_w by auto

lemma ToLower_VbdModeRO: "ToLower VbdModeRO = ''ro''"
  by (simp add: VbdModeRO_def ToLower_ro)

lemma ToLower_VbdModeRW: "ToLower VbdModeRW = ''rw''"
  by (simp add: VbdModeRW_def ToLower_rw)

section \<open>Building a descriptor from a record\<close>

text \<open>
  Claim C7.  \<^verbatim>\<open>readVBDFromSchema\<close> reads the mode of the record without regard to
  case: once the slot, the image and the bootable flag of the record are read, each of
  the four casings of \<^verbatim>\<open>ro\<close> gives the descriptor of the record with the read-only
  mode in its field \<open>Mode\<close>, each of the four casings of \<^verbatim>\<open>rw\<close> gives it with the
  read-write mode, and every other string gives no descriptor and the error that the
  mode is not valid.  The two modes differ.
\<close>

theorem readVBDFromSchema_mode:
  assumes "s vbdSchemaUserDevice = Some (IString userDevice)"
    and "readVBDFromSchema_vdi R s h = (Return (vdi, None), h')"
    and "s vbdSchemaBootable = Some (IBool bootable)"
    and "s vbdSchemaMode = Some (IString mode)"
  shows "readVBDFromSchema R s h =
     (if mode \<in> {''ro'', ''rO'', ''Ro'', ''RO''}
      then (Return (Some \<lparr>VBDRef = '''', UUID = '''', Type = '''', Mode = VbdModeRO,
                           Bootable = bootable, UserDevice = userDevice,
                           IsTemplateDevice = False, VDI = vdi, VM = None\<rparr>, None), h')
      else if mode \<in> {''rw'', ''rW'', ''Rw'', ''RW''}
      then (Return (Some \<lparr>VBDRef = '''', UUID = '''', Type = '''', Mode = VbdModeRW,
                           Bootable = bootable, UserDevice = userDevice,
                           IsTemplateDevice = False, VDI = vdi, VM = None\<rparr>, None), h')
      else (Return (None, Some (NotValidMode mode)), h')) \<and>
     VbdModeRO \<noteq> VbdModeRW"
proof -
  have "readVBDFromSchema R s h =
     (if ToLower mode = ''ro''
      then (Return (Some \<lparr>VBDRef = '''', UUID = '''', Type = '''', Mode = VbdModeRO,
                           Bootable = bootable, UserDevice = userDevice,
                           IsTemplateDevice = False, VDI = vdi, VM = None\<rparr>, None), h')
      else if ToLower mode = ''rw''
      then (Return (Some \<lparr>VBDRef = '''', UUID = '''', Type = '''', Mode = VbdModeRW,
                           Bootable = bootable, UserDevice = userDevice,
                           IsTemplateDevice = False, VDI = vdi, VM = None\<rparr>, None), h')
      else (Return (None, Some (NotValidMode mode)), h'))"
    using assms
    by (simp add: readVBDFromSchema_def schema_VBD_def ToLower_VbdModeRO ToLower_VbdModeRW)
  then have "readVBDFromSchema R s h =
     (if mode \<in> {''ro'', ''rO'', ''Ro'', ''RO''}
      then (Return (Some \<lparr>VBDRef = '''', UUID = '''', Type = '''', Mode = VbdModeRO,
                           Bootable = bootable, UserDevice = userDevice,
                           IsTemplateDevice = False, VDI = vdi, VM = None\<rparr>, None), h')
      else if mode \<in> {''rw'', ''rW'', ''Rw'', ''RW''}
      then (Return (Some \<lparr>VBDRef = '''', UUID = '''', Type = '''', Mode = VbdModeRW,
                           Bootable = bootable, UserDevice = userDevice,
                           IsTemplateDevice = False, VDI = vdi, VM = None\<rparr>, None), h')
      else (Return (None, Some (NotValidMode mode)), h'))"
    by (simp only: ToLower_ro ToLower_rw)
  moreover have "VbdModeRO \<noteq> VbdModeRW"
    by (simp add: VbdModeRO_def VbdModeRW_def)
  ultimately show ?thesis by (rule conjI)
qed

theorem readVBDFromSchema_mode_witness:
  "readVBDFromSchema example_remote
     [vbdSchemaUserDevice \<mapsto> IString ''0'', vbdSchemaBootable \<mapsto> IBool False,
      vbdSchemaMode \<mapsto> IString ''Ro''] [] =
     (Return (Some \<lparr>VBDRef = '''', UUID = '''', Type = '''', Mode = VbdModeRO,
                     Bootable = False, UserDevice = ''0'', IsTemplateDevice = False,
                     VDI = None, VM = None\<rparr>, None), []) \<and>
   readVBDFromSchema example_remote
     [vbdSchemaUserDevice \<mapsto> IString ''0'', vbdSchemaBootable \<mapsto> IBool False,
      vbdSchemaMode \<mapsto> IString ''rW''] [] =
     (Return (Some \<lparr>VBDRef = '''', UUID = '''', Type = '''', Mode = VbdModeRW,
                     Bootable = False, UserDevice = ''0'', IsTemplateDevice = False,
                     VDI = None, VM = None\<rparr>, None), []) \<and>
   readVBDFromSchema example_remote
     [vbdSchemaUserDevice \<mapsto> IString ''0'', vbdSchemaBootable \<mapsto> IBool False,
      vbdSchemaMode \<mapsto> IString ''readonly''] [] =
     (Return (None, Some (NotValidMode ''readonly'')), [])"
  using readVBDFromSchema_mode [of
      "[vbdSchemaUserDevice \<mapsto> IString ''0'', vbdSchemaBootable \<mapsto> IBool False,
        vbdSchemaMode \<mapsto> IString ''Ro'']" "''0''" example_remote "[]" None "[]" False "''Ro''"]
    readVBDFromSchema_mode [of
      "[vbdSchemaUserDevice \<mapsto> IString ''0'', vbdSchemaBootable \<mapsto> IBool False,
        vbdSchemaMode \<mapsto> IString ''rW'']" "''0''" example_remote "[]" None "[]" False "''rW''"]
    readVBDFromSchema_mode [of
      "[vbdSchemaUserDevice \<mapsto> IString ''0'', vbdSchemaBootable \<mapsto> IBool False,
        vbdSchemaMode \<mapsto> IString ''readonly'']" "''0''" example_remote "[]" None "[]" False
      "''readonly''"]
  by (simp add: readVBDFromSchema_vdi_def)

text \<open>
  Claim C10.  When the key \<^verbatim>\<open>vdi_uuid\<close> is present in the record, a descriptor that
  \<^verbatim>\<open>readVBDFromSchema\<close> returns always has an image.  When its value is a string, the
  empty one included, the lookup of that UUID is the call the function issues, and a
  failed lookup is returned as the error, with no descriptor.
\<close>

theorem readVBDFromSchema_vdi_key_present:
  "(s vbdSchemaVdiUUID \<noteq> None \<longrightarrow>
      (\<forall>vbd e h'. readVBDFromSchema R s h = (Return (Some vbd, e), h') \<longrightarrow> VDI vbd \<noteq> None)) \<and>
   (s vbdSchemaUserDevice = Some (IString userDevice) \<and>
    s vbdSchemaVdiUUID = Some (IString id') \<longrightarrow>
      snd (readVBDFromSchema R s h) = h @ [VDI_Load id'] \<and>
      (\<forall>err. Load R h \<lparr>VDIRef = '''', VDI_UUID = id'\<rparr> = Inl err \<longrightarrow>
         fst (readVBDFromSchema R s h) = Return (None, Some err)))"
proof (intro conjI impI allI)
  fix vbd e h'
  assume "s vbdSchemaVdiUUID \<noteq> None"
    and "readVBDFromSchema R s h = (Return (Some vbd, e), h')"
  then show "VDI vbd \<noteq> None"
    by (auto simp: readVBDFromSchema_def readVBDFromSchema_vdi_def schema_VBD_def
        split: option.splits iface.splits sum.splits if_splits)
next
  assume a: "s vbdSchemaUserDevice = Some (IString userDevice) \<and>
    s vbdSchemaVdiUUID = Some (IString id')"
  then show "snd (readVBDFromSchema R s h) = h @ [VDI_Load id']"
    by (auto simp: readVBDFromSchema_def readVBDFromSchema_vdi_def
        split: option.splits iface.splits sum.splits)
  fix err
  assume "Load R h \<lparr>VDIRef = '''', VDI_UUID = id'\<rparr> = Inl err"
  with a show "fst (readVBDFromSchema R s h) = Return (None, Some err)"
    by (simp add: readVBDFromSchema_def readVBDFromSchema_vdi_def)
qed

theorem readVBDFromSchema_vdi_key_present_witness:
  "readVBDFromSchema example_remote
     [vbdSchemaUserDevice \<mapsto> IString ''0'', vbdSchemaVdiUUID \<mapsto> IString '''',
      vbdSchemaBootable \<mapsto> IBool False, vbdSchemaMode \<mapsto> IString ''RW''] [] =
   (Return (None, Some (RemoteError ''UUID_INVALID'')), [VDI_Load ''''])"
  using readVBDFromSchema_vdi_key_present [of
      "[vbdSchemaUserDevice \<mapsto> IString ''0'', vbdSchemaVdiUUID \<mapsto> IString '''',
        vbdSchemaBootable \<mapsto> IBool False, vbdSchemaMode \<mapsto> IString ''RW'']"
      example_remote "[]" "''0''" "''''"]
  by (simp add: example_remote_def prod_eq_iff)
section \<open>Properties of the fingerprint function\<close>

lemma vbdHash_record:
  assumes "vbd_record m"
  obtains userDevice isTemplateDevice mode bootable vdiUUID where
    "m vbdSchemaUserDevice = Some (IString userDevice)"
    "m vbdSchemaTemplateDevice = Some (IBool isTemplateDevice)"
    "m vbdSchemaMode = Some (IString mode)"
    "m vbdSchemaBootable = Some (IBool bootable)"
    "m vbdSchemaVdiUUID = Some (IString vdiUUID)"
    "vbdHash H m = Return (H (vbdHash_buf userDevice isTemplateDevice mode bootable vdiUUID))"
proof -
  from assms obtain ud t mo b u where f:
    "m vbdSchemaUserDevice = Some (IString ud)"
    "m vbdSchemaTemplateDevice = Some (IBool t)"
    "m vbdSchemaMode = Some (IString mo)"
    "m vbdSchemaBootable = Some (IBool b)"
    "m vbdSchemaVdiUUID = Some (IString u)"
    unfolding vbd_record_def by (meson is_stringE is_boolE)
  then have "vbdHash H m = Return (H (vbdHash_buf ud t mo b u))"
    by (simp add: vbdHash_def)
  with f show thesis by (rule that)
qed

lemma ToLower_eq_Nil: "ToLower s = [] \<longleftrightarrow> s = []"
  by (simp add: ToLower_def)

lemma vbdHash_buf_template:
  "vbdHash_buf userDevice True mode bootable vdiUUID = userDevice"
  by (simp add: vbdHash_buf_def)

lemma vbdHash_buf_declared:
  assumes "ToLower mode = ToLower mode'"
  shows "vbdHash_buf userDevice False mode bootable vdiUUID =
         vbdHash_buf userDevice' False mode' bootable vdiUUID"
proof -
  from assms have "mode = [] \<longleftrightarrow> mode' = []"
    by (metis ToLower_eq_Nil)
  with assms show ?thesis
    by (simp add: vbdHash_buf_def)
qed

text \<open>
  Claim C4.  The fingerprint of every record of the schema is a positive integer:
  \<^verbatim>\<open>vbdHash\<close> does not panic on such a record and returns the value of the string
  hash, which the spec describes as positive.
\<close>

theorem vbdHash_positive:
  assumes "positive_hash hashcode_String" and "vbd_record m"
  shows "\<exists>h. vbdHash hashcode_String m = Return h \<and> 0 < h"
proof -
  from assms(2) obtain ud t mo b u where
    "vbdHash hashcode_String m = Return (hashcode_String (vbdHash_buf ud t mo b u))"
    by (rule vbdHash_record)
  moreover from assms(1) have "0 < hashcode_String (vbdHash_buf ud t mo b u)"
    by (simp add: positive_hash_def)
  ultimately show ?thesis by simp
qed

theorem vbdHash_positive_witness:
  "positive_hash example_hash \<and>
   vbd_record [vbdSchemaUserDevice \<mapsto> IString ''0'', vbdSchemaTemplateDevice \<mapsto> IBool True,
     vbdSchemaMode \<mapsto> IString '''', vbdSchemaBootable \<mapsto> IBool False,
     vbdSchemaVdiUUID \<mapsto> IString ''''] \<and>
   (\<exists>h. vbdHash example_hash
      [vbdSchemaUserDevice \<mapsto> IString ''0'', vbdSchemaTemplateDevice \<mapsto> IBool True,
       vbdSchemaMode \<mapsto> IString '''', vbdSchemaBootable \<mapsto> IBool False,
       vbdSchemaVdiUUID \<mapsto> IString ''''] = Return h \<and> 0 < h)"
proof -
  have p: "positive_hash example_hash"
    by (simp add: positive_hash_def example_hash_def)
  have r: "vbd_record [vbdSchemaUserDevice \<mapsto> IString ''0'',
     vbdSchemaTemplateDevice \<mapsto> IBool True,
     vbdSchemaMode \<mapsto> IString '''', vbdSchemaBootable \<mapsto> IBool False,
     vbdSchemaVdiUUID \<mapsto> IString '''']"
    by (simp add: vbd_record_def is_string_def is_bool_def)
  from p r vbdHash_positive [OF p r] show ?thesis by blast
qed

text \<open>
  Claim C5.  Two records of the schema that are both marked template-origin and carry
  the same device slot have the same fingerprint, whatever their image UUID, mode and
  bootable flag are.
\<close>

theorem vbdHash_template_slot_only:
  assumes "vbd_record m1" and "vbd_record m2"
    and "m1 vbdSchemaTemplateDevice = Some (IBool True)"
    and "m2 vbdSchemaTemplateDevice = Some (IBool True)"
    and "m1 vbdSchemaUserDevice = m2 vbdSchemaUserDevice"
  shows "vbdHash hashcode_String m1 = vbdHash hashcode_String m2 \<and>
         vbdHash hashcode_String m1 \<noteq> Panic"
proof -
  from assms(1) obtain ud1 t1 mo1 b1 u1 where 1:
    "m1 vbdSchemaUserDevice = Some (IString ud1)"
    "m1 vbdSchemaTemplateDevice = Some (IBool t1)"
    "vbdHash hashcode_String m1 = Return (hashcode_String (vbdHash_buf ud1 t1 mo1 b1 u1))"
    by (rule vbdHash_record)
  from assms(2) obtain ud2 t2 mo2 b2 u2 where 2:
    "m2 vbdSchemaUserDevice = Some (IString ud2)"
    "m2 vbdSchemaTemplateDevice = Some (IBool t2)"
    "vbdHash hashcode_String m2 = Return (hashcode_String (vbdHash_buf ud2 t2 mo2 b2 u2))"
    by (rule vbdHash_record)
  from 1 2 assms(3-5) have "t1" "t2" "ud1 = ud2" by simp_all
  with 1(3) 2(3) show ?thesis
    by (simp add: vbdHash_buf_template)
qed

theorem vbdHash_template_slot_only_witness:
  "vbdHash example_hash
     [vbdSchemaUserDevice \<mapsto> IString ''0'', vbdSchemaTemplateDevice \<mapsto> IBool True,
      vbdSchemaMode \<mapsto> IString ''RW'', vbdSchemaBootable \<mapsto> IBool True,
      vbdSchemaVdiUUID \<mapsto> IString ''6f1c''] =
   vbdHash example_hash
     [vbdSchemaUserDevice \<mapsto> IString ''0'', vbdSchemaTemplateDevice \<mapsto> IBool True,
      vbdSchemaMode \<mapsto> IString '''', vbdSchemaBootable \<mapsto> IBool False,
      vbdSchemaVdiUUID \<mapsto> IString '''']"
  using vbdHash_template_slot_only [of
     "[vbdSchemaUserDevice \<mapsto> IString ''0'', vbdSchemaTemplateDevice \<mapsto> IBool True,
       vbdSchemaMode \<mapsto> IString ''RW'', vbdSchemaBootable \<mapsto> IBool True,
       vbdSchemaVdiUUID \<mapsto> IString ''6f1c'']"
     "[vbdSchemaUserDevice \<mapsto> IString ''0'', vbdSchemaTemplateDevice \<mapsto> IBool True,
       vbdSchemaMode \<mapsto> IString '''', vbdSchemaBootable \<mapsto> IBool False,
       vbdSchemaVdiUUID \<mapsto> IString '''']" example_hash]
  by (simp add: vbd_record_def is_string_def is_bool_def)

text \<open>
  Claim C6.  Two records of the schema that are both not marked template-origin and
  agree on the image UUID, on the lower-cased mode and on the bootable flag have the
  same fingerprint, whatever their device slots are.
\<close>

theorem vbdHash_declared_ignores_slot:
  assumes "vbd_record m1" and "vbd_record m2"
    and "m1 vbdSchemaTemplateDevice = Some (IBool False)"
    and "m2 vbdSchemaTemplateDevice = Some (IBool False)"
    and "m1 vbdSchemaVdiUUID = m2 vbdSchemaVdiUUID"
    and "m1 vbdSchemaMode = Some (IString mode1)"
    and "m2 vbdSchemaMode = Some (IString mode2)"
    and "ToLower mode1 = ToLower mode2"
    and "m1 vbdSchemaBootable = m2 vbdSchemaBootable"
  shows "vbdHash hashcode_String m1 = vbdHash hashcode_String m2 \<and>
         vbdHash hashcode_String m1 \<noteq> Panic"
proof -
  from assms(1) obtain ud1 t1 mo1 b1 u1 where 1:
    "m1 vbdSchemaTemplateDevice = Some (IBool t1)"
    "m1 vbdSchemaMode = Some (IString mo1)"
    "m1 vbdSchemaBootable = Some (IBool b1)"
    "m1 vbdSchemaVdiUUID = Some (IString u1)"
    "vbdHash hashcode_String m1 = Return (hashcode_String (vbdHash_buf ud1 t1 mo1 b1 u1))"
    by (rule vbdHash_record)
  from assms(2) obtain ud2 t2 mo2 b2 u2 where 2:
    "m2 vbdSchemaTemplateDevice = Some (IBool t2)"
    "m2 vbdSchemaMode = Some (IString mo2)"
    "m2 vbdSchemaBootable = Some (IBool b2)"
    "m2 vbdSchemaVdiUUID = Some (IString u2)"
    "vbdHash hashcode_String m2 = Return (hashcode_String (vbdHash_buf ud2 t2 mo2 b2 u2))"
    by (rule vbdHash_record)
  from 1 2 assms(3-9) have e: "\<not> t1" "\<not> t2" "u1 = u2" "b1 = b2" "mo1 = mode1" "mo2 = mode2"
    by simp_all
  from assms(8) have "vbdHash_buf ud1 False mode1 b2 u2 = vbdHash_buf ud2 False mode2 b2 u2"
    by (rule vbdHash_buf_declared)
  with 1(5) 2(5) e show ?thesis by simp
qed

theorem vbdHash_declared_ignores_slot_witness:
  "vbdHash example_hash
     [vbdSchemaUserDevice \<mapsto> IString ''0'', vbdSchemaTemplateDevice \<mapsto> IBool False,
      vbdSchemaMode \<mapsto> IString ''RW'', vbdSchemaBootable \<mapsto> IBool True,
      vbdSchemaVdiUUID \<mapsto> IString ''6f1c''] =
   vbdHash example_hash
     [vbdSchemaUserDevice \<mapsto> IString ''5'', vbdSchemaTemplateDevice \<mapsto> IBool False,
      vbdSchemaMode \<mapsto> IString ''rw'', vbdSchemaBootable \<mapsto> IBool True,
      vbdSchemaVdiUUID \<mapsto> IString ''6f1c'']"
  using vbdHash_declared_ignores_slot [of
     "[vbdSchemaUserDevice \<mapsto> IString ''0'', vbdSchemaTemplateDevice \<mapsto> IBool False,
       vbdSchemaMode \<mapsto> IString ''RW'', vbdSchemaBootable \<mapsto> IBool True,
       vbdSchemaVdiUUID \<mapsto> IString ''6f1c'']"
     "[vbdSchemaUserDevice \<mapsto> IString ''5'', vbdSchemaTemplateDevice \<mapsto> IBool False,
       vbdSchemaMode \<mapsto> IString ''rw'', vbdSchemaBootable \<mapsto> IBool True,
       vbdSchemaVdiUUID \<mapsto> IString ''6f1c'']" "''RW''" "''rw''" example_hash]
    ToLower_rw [of "''RW''"] ToLower_rw [of "''rw''"]
  by (simp add: vbd_record_def is_string_def is_bool_def)

section \<open>Loops\<close>

lemma range_loop_append:
  "range_loop body (xs @ ys) st =
     (case range_loop body xs st of
        Continue st' \<Rightarrow> range_loop body ys st'
      | Break r \<Rightarrow> Break r)"
  by (induction xs arbitrary: st) (auto split: iter.splits)

section \<open>The destroy flow\<close>

lemma destroy_body_cases:
  obtains (skip) "Type vbd \<noteq> VbdTypeDisk" "destroyTemplateVDIs_body R vbd h = Continue h"
  | (nil) "Type vbd = VbdTypeDisk" "VDI vbd = None"
      "destroyTemplateVDIs_body R vbd h = Break (Panic, h)"
  | (fail) vdi err where "Type vbd = VbdTypeDisk" "VDI vbd = Some vdi"
      "Destroy R h (VDIRef vdi) = Some err"
      "destroyTemplateVDIs_body R vbd h =
         Break (Return (Some err), h @ [VDI_Destroy (VDIRef vdi)])"
  | (ok) vdi where "Type vbd = VbdTypeDisk" "VDI vbd = Some vdi"
      "Destroy R h (VDIRef vdi) = None"
      "destroyTemplateVDIs_body R vbd h = Continue (h @ [VDI_Destroy (VDIRef vdi)])"
  by (cases "Type vbd = VbdTypeDisk"; cases "VDI vbd";
      cases "Destroy R h (VDIRef (the (VDI vbd)))")
     (auto simp: destroyTemplateVDIs_body_def)

lemma destroyTemplateVDIs_Cons:
  "destroyTemplateVDIs R (vbd # vbds) h =
     (case destroyTemplateVDIs_body R vbd h of
        Continue h1 \<Rightarrow> destroyTemplateVDIs R vbds h1
      | Break r \<Rightarrow> r)"
  by (simp add: destroyTemplateVDIs_def split: iter.splits)

lemma destroy_loop_Continue:
  "range_loop (destroyTemplateVDIs_body R) vbds h = Continue h' \<Longrightarrow>
     (\<forall>v\<in>set vbds. Type v = VbdTypeDisk \<longrightarrow> VDI v \<noteq> None) \<and>
     h' = h @ map (\<lambda>v. VDI_Destroy (VDIRef (the (VDI v))))
                (filter (\<lambda>v. Type v = VbdTypeDisk) vbds)"
proof (induction vbds arbitrary: h)
  case Nil
  then show ?case by simp
next
  case (Cons v vbds)
  show ?case
  proof (cases rule: destroy_body_cases [of v R h])
    case skip
    with Cons show ?thesis by simp
  next
    case nil
    with Cons.prems show ?thesis by simp
  next
    case (fail vdi err)
    with Cons.prems show ?thesis by simp
  next
    case (ok vdi)
    with Cons.prems
    have "range_loop (destroyTemplateVDIs_body R) vbds (h @ [VDI_Destroy (VDIRef vdi)]) =
            Continue h'"
      by simp
    from Cons.IH [OF this] ok show ?thesis by simp
  qed
qed

lemma destroy_loop_Break:
  "range_loop (destroyTemplateVDIs_body R) vbds h = Break (r, h') \<Longrightarrow> r \<noteq> Return None"
proof (induction vbds arbitrary: h)
  case Nil
  then show ?case by simp
next
  case (Cons v vbds)
  show ?case
  proof (cases rule: destroy_body_cases [of v R h])
    case skip
    with Cons show ?thesis by simp
  next
    case nil
    with Cons.prems show ?thesis by auto
  next
    case (fail vdi err)
    with Cons.prems show ?thesis by auto
  next
    case (ok vdi)
    with Cons show ?thesis by simp
  qed
qed

lemma destroyTemplateVDIs_nil_result:
  assumes "destroyTemplateVDIs R vbds h = (Return None, h')"
  shows "range_loop (destroyTemplateVDIs_body R) vbds h = Continue h'"
proof (cases "range_loop (destroyTemplateVDIs_body R) vbds h")
  case (Continue h1)
  with assms show ?thesis by (simp add: destroyTemplateVDIs_def)
next
  case (Break r)
  with assms have "range_loop (destroyTemplateVDIs_body R) vbds h = Break (Return None, h')"
    by (simp add: destroyTemplateVDIs_def)
  then show ?thesis by (blast dest: destroy_loop_Break)
qed

lemma destroyTemplateVDIs_prefix:
  "\<exists>n. snd (destroyTemplateVDIs R vbds h) =
          h @ map (\<lambda>v. VDI_Destroy (VDIRef (the (VDI v))))
                (take n (filter (\<lambda>v. Type v = VbdTypeDisk) vbds)) \<and>
       (\<forall>v\<in>set (take n (filter (\<lambda>v. Type v = VbdTypeDisk) vbds)). VDI v \<noteq> None)"
proof (induction vbds arbitrary: h)
  case Nil
  then show ?case by (simp add: destroyTemplateVDIs_def)
next
  case (Cons v vbds)
  show ?case
  proof (cases rule: destroy_body_cases [of v R h])
    case skip
    with Cons [of h] show ?thesis by (simp add: destroyTemplateVDIs_Cons)
  next
    case nil
    then have "snd (destroyTemplateVDIs R (v # vbds) h) = h"
      by (simp add: destroyTemplateVDIs_Cons)
    then show ?thesis by (intro exI [of _ 0]) simp
  next
    case (fail vdi err)
    then have "snd (destroyTemplateVDIs R (v # vbds) h) = h @ [VDI_Destroy (VDIRef vdi)]"
      by (simp add: destroyTemplateVDIs_Cons)
    with fail show ?thesis by (intro exI [of _ 1]) simp
  next
    case (ok vdi)
    from Cons [of "h @ [VDI_Destroy (VDIRef vdi)]"] obtain n where
      "snd (destroyTemplateVDIs R vbds (h @ [VDI_Destroy (VDIRef vdi)])) =
          (h @ [VDI_Destroy (VDIRef vdi)]) @ map (\<lambda>v. VDI_Destroy (VDIRef (the (VDI v))))
                (take n (filter (\<lambda>v. Type v = VbdTypeDisk) vbds))"
      "\<forall>v\<in>set (take n (filter (\<lambda>v. Type v = VbdTypeDisk) vbds)). VDI v \<noteq> None"
      by blast
    with ok show ?thesis by (intro exI [of _ "Suc n"]) (simp add: destroyTemplateVDIs_Cons)
  qed
qed

lemma destroyTemplateVDIs_abort:
  assumes "destroyTemplateVDIs R pre h = (Return None, h1)"
    and "Type v = VbdTypeDisk" and "VDI v = Some vdi"
    and "Destroy R h1 (VDIRef vdi) = Some e"
  shows "destroyTemplateVDIs R (pre @ v # post) h =
           (Return (Some e), h1 @ [VDI_Destroy (VDIRef vdi)])"
proof -
  from assms(1) have "range_loop (destroyTemplateVDIs_body R) pre h = Continue h1"
    by (rule destroyTemplateVDIs_nil_result)
  moreover from assms(2-4) have "destroyTemplateVDIs_body R v h1 =
      Break (Return (Some e), h1 @ [VDI_Destroy (VDIRef vdi)])"
    by (simp add: destroyTemplateVDIs_body_def)
  ultimately show ?thesis
    by (simp add: destroyTemplateVDIs_def range_loop_append)
qed

lemma destroy_loop_progress:
  "\<forall>v\<in>set vbds. Type v = VbdTypeDisk \<longrightarrow> VDI v \<noteq> None \<Longrightarrow>
   \<forall>a\<in>set (destroy_answers R h
       (map (\<lambda>v. VDIRef (the (VDI v))) (filter (\<lambda>v. Type v = VbdTypeDisk) vbds))). a = None \<Longrightarrow>
   range_loop (destroyTemplateVDIs_body R) vbds h =
     Continue (h @ map (\<lambda>v. VDI_Destroy (VDIRef (the (VDI v))))
                     (filter (\<lambda>v. Type v = VbdTypeDisk) vbds))"
proof (induction vbds arbitrary: h)
  case Nil
  then show ?case by simp
next
  case (Cons v vbds)
  show ?case
  proof (cases rule: destroy_body_cases [of v R h])
    case skip
    with Cons.prems Cons.IH [of h] show ?thesis by simp
  next
    case nil
    with Cons.prems(1) show ?thesis by simp
  next
    case (fail vdi err)
    with Cons.prems(2) show ?thesis by simp
  next
    case (ok vdi)
    with Cons.prems
    have "\<forall>v\<in>set vbds. Type v = VbdTypeDisk \<longrightarrow> VDI v \<noteq> None"
      and "\<forall>a\<in>set (destroy_answers R (h @ [VDI_Destroy (VDIRef vdi)])
         (map (\<lambda>v. VDIRef (the (VDI v))) (filter (\<lambda>v. Type v = VbdTypeDisk) vbds))). a = None"
      by simp_all
    from Cons.IH [OF this] ok show ?thesis by simp
  qed
qed

lemma destroyTemplateVDIs_progress:
  assumes "\<forall>v\<in>set vbds. Type v = VbdTypeDisk \<longrightarrow> VDI v \<noteq> None"
    and "\<forall>a\<in>set (destroy_answers R h
       (map (\<lambda>v. VDIRef (the (VDI v))) (filter (\<lambda>v. Type v = VbdTypeDisk) vbds))). a = None"
  shows "destroyTemplateVDIs R vbds h =
     (Return None, h @ map (\<lambda>v. VDI_Destroy (VDIRef (the (VDI v))))
                          (filter (\<lambda>v. Type v = VbdTypeDisk) vbds))"
  using destroy_loop_progress [OF assms] by (simp add: destroyTemplateVDIs_def)

lemma destroyTemplateVDIs_first_failure:
  assumes "\<forall>v\<in>set pre. Type v = VbdTypeDisk \<longrightarrow> VDI v \<noteq> None"
    and "\<forall>a\<in>set (destroy_answers R h
       (map (\<lambda>v. VDIRef (the (VDI v))) (filter (\<lambda>v. Type v = VbdTypeDisk) pre))). a = None"
    and "Type v = VbdTypeDisk" and "VDI v = Some vdi"
    and "Destroy R (h @ map (\<lambda>v. VDI_Destroy (VDIRef (the (VDI v))))
                          (filter (\<lambda>v. Type v = VbdTypeDisk) pre)) (VDIRef vdi) = Some e"
  shows "destroyTemplateVDIs R (pre @ v # post) h =
     (Return (Some e),
      h @ map (\<lambda>v. VDI_Destroy (VDIRef (the (VDI v))))
            (filter (\<lambda>v. Type v = VbdTypeDisk) pre) @ [VDI_Destroy (VDIRef vdi)])"
proof -
  from assms(1,2) have "destroyTemplateVDIs R pre h =
     (Return None, h @ map (\<lambda>v. VDI_Destroy (VDIRef (the (VDI v))))
                          (filter (\<lambda>v. Type v = VbdTypeDisk) pre))"
    by (rule destroyTemplateVDIs_progress)
  from destroyTemplateVDIs_abort [OF this assms(3-5)] show ?thesis by simp
qed

text \<open>
  Claim C9.  The destroy flow issues image-destroy calls for disk attachments only, in
  the order of the list and starting from the first disk attachment: the calls it adds
  are those of an initial part of the disk attachments, none for an optical one.  When
  it returns nil, every disk attachment has had its call.  When the call for a disk
  attachment fails after the flow came through the attachments before it, the flow
  returns that error and issues no further call.  On the remote side: when every disk
  attachment has an image and the remote side answers nil to the destroy call of each
  in turn, the flow issues the call for every disk attachment and returns nil; when the
  remote side answers nil for the disk attachments before an attachment and an error
  for that one, the flow returns this error and the failed call is the last it issues.
\<close>

theorem destroyTemplateVDIs_calls:
  "(\<exists>n. snd (destroyTemplateVDIs R vbds h) =
          h @ map (\<lambda>v. VDI_Destroy (VDIRef (the (VDI v))))
                (take n (filter (\<lambda>v. Type v = VbdTypeDisk) vbds)) \<and>
        (\<forall>v\<in>set (take n (filter (\<lambda>v. Type v = VbdTypeDisk) vbds)). VDI v \<noteq> None)) \<and>
   (\<forall>h'. destroyTemplateVDIs R vbds h = (Return None, h') \<longrightarrow>
      (\<forall>v\<in>set vbds. Type v = VbdTypeDisk \<longrightarrow> VDI v \<noteq> None) \<and>
      h' = h @ map (\<lambda>v. VDI_Destroy (VDIRef (the (VDI v))))
                 (filter (\<lambda>v. Type v = VbdTypeDisk) vbds)) \<and>
   (\<forall>pre v post h1 vdi e.
      vbds = pre @ v # post \<and> destroyTemplateVDIs R pre h = (Return None, h1) \<and>
      Type v = VbdTypeDisk \<and> VDI v = Some vdi \<and> Destroy R h1 (VDIRef vdi) = Some e \<longrightarrow>
      destroyTemplateVDIs R vbds h = (Return (Some e), h1 @ [VDI_Destroy (VDIRef vdi)])) \<and>
   ((\<forall>v\<in>set vbds. Type v = VbdTypeDisk \<longrightarrow> VDI v \<noteq> None) \<and>
    (\<forall>a\<in>set (destroy_answers R h
        (map (\<lambda>v. VDIRef (the (VDI v))) (filter (\<lambda>v. Type v = VbdTypeDisk) vbds))).
        a = None) \<longrightarrow>
      destroyTemplateVDIs R vbds h =
        (Return None, h @ map (\<lambda>v. VDI_Destroy (VDIRef (the (VDI v))))
                             (filter (\<lambda>v. Type v = VbdTypeDisk) vbds))) \<and>
   (\<forall>pre v post vdi e.
      vbds = pre @ v # post \<and>
      (\<forall>u\<in>set pre. Type u = VbdTypeDisk \<longrightarrow> VDI u \<noteq> None) \<and>
      (\<forall>a\<in>set (destroy_answers R h
          (map (\<lambda>u. VDIRef (the (VDI u))) (filter (\<lambda>u. Type u = VbdTypeDisk) pre))).
          a = None) \<and>
      Type v = VbdTypeDisk \<and> VDI v = Some vdi \<and>
      Destroy R (h @ map (\<lambda>u. VDI_Destroy (VDIRef (the (VDI u))))
                       (filter (\<lambda>u. Type u = VbdTypeDisk) pre)) (VDIRef vdi) = Some e \<longrightarrow>
      destroyTemplateVDIs R vbds h =
        (Return (Some e),
         h @ map (\<lambda>u. VDI_Destroy (VDIRef (the (VDI u))))
               (filter (\<lambda>u. Type u = VbdTypeDisk) pre) @ [VDI_Destroy (VDIRef vdi)]))"
proof (intro conjI allI impI)
  show "\<exists>n. snd (destroyTemplateVDIs R vbds h) =
          h @ map (\<lambda>v. VDI_Destroy (VDIRef (the (VDI v))))
                (take n (filter (\<lambda>v. Type v = VbdTypeDisk) vbds)) \<and>
        (\<forall>v\<in>set (take n (filter (\<lambda>v. Type v = VbdTypeDisk) vbds)). VDI v \<noteq> None)"
    by (rule destroyTemplateVDIs_prefix)
next
  fix h'
  assume "destroyTemplateVDIs R vbds h = (Return None, h')"
  then have l: "range_loop (destroyTemplateVDIs_body R) vbds h = Continue h'"
    by (rule destroyTemplateVDIs_nil_result)
  from destroy_loop_Continue [OF l]
  show "\<forall>v\<in>set vbds. Type v = VbdTypeDisk \<longrightarrow> VDI v \<noteq> None"
    and "h' = h @ map (\<lambda>v. VDI_Destroy (VDIRef (the (VDI v))))
                 (filter (\<lambda>v. Type v = VbdTypeDisk) vbds)"
    by simp_all
next
  fix pre v post h1 vdi e
  assume "vbds = pre @ v # post \<and> destroyTemplateVDIs R pre h = (Return None, h1) \<and>
      Type v = VbdTypeDisk \<and> VDI v = Some vdi \<and> Destroy R h1 (VDIRef vdi) = Some e"
  then show "destroyTemplateVDIs R vbds h =
      (Return (Some e), h1 @ [VDI_Destroy (VDIRef vdi)])"
    by (simp add: destroyTemplateVDIs_abort)
next
  assume "(\<forall>v\<in>set vbds. Type v = VbdTypeDisk \<longrightarrow> VDI v \<noteq> None) \<and>
    (\<forall>a\<in>set (destroy_answers R h
        (map (\<lambda>v. VDIRef (the (VDI v))) (filter (\<lambda>v. Type v = VbdTypeDisk) vbds))).
        a = None)"
  then show "destroyTemplateVDIs R vbds h =
        (Return None, h @ map (\<lambda>v. VDI_Destroy (VDIRef (the (VDI v))))
                             (filter (\<lambda>v. Type v = VbdTypeDisk) vbds))"
    by (intro destroyTemplateVDIs_progress) simp_all
next
  fix pre v post vdi e
  assume a: "vbds = pre @ v # post \<and>
      (\<forall>u\<in>set pre. Type u = VbdTypeDisk \<longrightarrow> VDI u \<noteq> None) \<and>
      (\<forall>a\<in>set (destroy_answers R h
          (map (\<lambda>u. VDIRef (the (VDI u))) (filter (\<lambda>u. Type u = VbdTypeDisk) pre))).
          a = None) \<and>
      Type v = VbdTypeDisk \<and> VDI v = Some vdi \<and>
      Destroy R (h @ map (\<lambda>u. VDI_Destroy (VDIRef (the (VDI u))))
                       (filter (\<lambda>u. Type u = VbdTypeDisk) pre)) (VDIRef vdi) = Some e"
  then have "destroyTemplateVDIs R (pre @ v # post) h =
        (Return (Some e),
         h @ map (\<lambda>u. VDI_Destroy (VDIRef (the (VDI u))))
               (filter (\<lambda>u. Type u = VbdTypeDisk) pre) @ [VDI_Destroy (VDIRef vdi)])"
    by (intro destroyTemplateVDIs_first_failure) simp_all
  with a show "destroyTemplateVDIs R vbds h =
        (Return (Some e),
         h @ map (\<lambda>u. VDI_Destroy (VDIRef (the (VDI u))))
               (filter (\<lambda>u. Type u = VbdTypeDisk) pre) @ [VDI_Destroy (VDIRef vdi)])"
    by simp
qed

theorem destroyTemplateVDIs_calls_witness:
  "VDI example_vbd0 \<noteq> None \<and> Type example_vbd1 \<noteq> VbdTypeDisk \<and>
   VDI example_vbd2 \<noteq> None \<and>
   destroy_answers example_remote [] [''OpaqueRef:vdi0'', ''OpaqueRef:vdi2''] = [None, None] \<and>
   destroyTemplateVDIs example_remote [example_vbd0, example_vbd1, example_vbd2] [] =
     (Return None, [VDI_Destroy ''OpaqueRef:vdi0'', VDI_Destroy ''OpaqueRef:vdi2'']) \<and>
   Type example_vbd2 = VbdTypeDisk \<and>
   VDI example_vbd2 = Some \<lparr>VDIRef = ''OpaqueRef:vdi2'', VDI_UUID = ''image-c''\<rparr> \<and>
   Destroy (example_remote\<lparr>Destroy := \<lambda>h ref.
       if ref = ''OpaqueRef:vdi2'' then Some (RemoteError ''VDI_IN_USE'') else None\<rparr>)
     [VDI_Destroy ''OpaqueRef:vdi0''] ''OpaqueRef:vdi2'' = Some (RemoteError ''VDI_IN_USE'') \<and>
   destroyTemplateVDIs (example_remote\<lparr>Destroy := \<lambda>h ref.
       if ref = ''OpaqueRef:vdi2'' then Some (RemoteError ''VDI_IN_USE'') else None\<rparr>)
     [example_vbd0, example_vbd1, example_vbd2, example_vbd0] [] =
     (Return (Some (RemoteError ''VDI_IN_USE'')),
      [VDI_Destroy ''OpaqueRef:vdi0'', VDI_Destroy ''OpaqueRef:vdi2''])"
proof -
  have k: "filter (\<lambda>v. Type v = VbdTypeDisk) [example_vbd0, example_vbd1, example_vbd2] =
      [example_vbd0, example_vbd2]"
    "filter (\<lambda>v. Type v = VbdTypeDisk) [example_vbd0, example_vbd1] = [example_vbd0]"
    by (simp_all add: example_vbd0_def example_vbd1_def example_vbd2_def
        VbdTypeCD_def VbdTypeDisk_def)
  have i: "VDIRef (the (VDI example_vbd0)) = ''OpaqueRef:vdi0''"
    "VDIRef (the (VDI example_vbd2)) = ''OpaqueRef:vdi2''"
    "VDI example_vbd0 \<noteq> None" "VDI example_vbd2 \<noteq> None"
    "Type example_vbd2 = VbdTypeDisk" "Type example_vbd1 \<noteq> VbdTypeDisk"
    "VDI example_vbd2 = Some \<lparr>VDIRef = ''OpaqueRef:vdi2'', VDI_UUID = ''image-c''\<rparr>"
    by (simp_all add: example_vbd0_def example_vbd1_def example_vbd2_def
        VbdTypeCD_def VbdTypeDisk_def)
  have a: "(\<forall>v\<in>set [example_vbd0, example_vbd1, example_vbd2].
      Type v = VbdTypeDisk \<longrightarrow> VDI v \<noteq> None)"
    using i by simp
  have b: "destroy_answers example_remote [] [''OpaqueRef:vdi0'', ''OpaqueRef:vdi2''] =
      [None, None]"
    by (simp add: example_remote_def)
  from destroyTemplateVDIs_calls [of example_remote
      "[example_vbd0, example_vbd1, example_vbd2]" "[]",
      THEN conjunct2, THEN conjunct2, THEN conjunct2, THEN conjunct1] a b k i
  have c: "destroyTemplateVDIs example_remote [example_vbd0, example_vbd1, example_vbd2] [] =
     (Return None, [VDI_Destroy ''OpaqueRef:vdi0'', VDI_Destroy ''OpaqueRef:vdi2''])"
    by simp
  have d: "Destroy (example_remote\<lparr>Destroy := \<lambda>h ref.
       if ref = ''OpaqueRef:vdi2'' then Some (RemoteError ''VDI_IN_USE'') else None\<rparr>)
     [VDI_Destroy ''OpaqueRef:vdi0''] ''OpaqueRef:vdi2'' = Some (RemoteError ''VDI_IN_USE'')"
    by simp
  from destroyTemplateVDIs_calls [of
      "example_remote\<lparr>Destroy := \<lambda>h ref.
         if ref = ''OpaqueRef:vdi2'' then Some (RemoteError ''VDI_IN_USE'') else None\<rparr>"
      "[example_vbd0, example_vbd1, example_vbd2, example_vbd0]" "[]",
      THEN conjunct2, THEN conjunct2, THEN conjunct2, THEN conjunct2, rule_format,
      of "[example_vbd0, example_vbd1]" example_vbd2 "[example_vbd0]"
        "\<lparr>VDIRef = ''OpaqueRef:vdi2'', VDI_UUID = ''image-c''\<rparr>" "RemoteError ''VDI_IN_USE''"]
    k i d
  have e: "destroyTemplateVDIs (example_remote\<lparr>Destroy := \<lambda>h ref.
       if ref = ''OpaqueRef:vdi2'' then Some (RemoteError ''VDI_IN_USE'') else None\<rparr>)
     [example_vbd0, example_vbd1, example_vbd2, example_vbd0] [] =
     (Return (Some (RemoteError ''VDI_IN_USE'')),
      [VDI_Destroy ''OpaqueRef:vdi0'', VDI_Destroy ''OpaqueRef:vdi2''])"
    by simp
  from b c d e i show ?thesis by simp
qed

section \<open>The read flow\<close>

lemma VbdType_distinct: "VbdTypeCD \<noteq> VbdTypeDisk"
  by (simp add: VbdTypeCD_def VbdTypeDisk_def)

lemma readVBDs_body_cases:
  obtains (fail) err where "Query R h (new_VBD ref) = Inl err"
      "readVBDs_body R ref ((hdd, cdrom), h) = Break ((None, None, Some err), h @ [VBD_Query ref])"
  | (cd) vbd where "Query R h (new_VBD ref) = Inr vbd" "Type vbd = VbdTypeCD"
      "readVBDs_body R ref ((hdd, cdrom), h) =
         Continue ((hdd, cdrom @ [fillVBDSchema vbd]), h @ [VBD_Query ref])"
  | (disk) vbd where "Query R h (new_VBD ref) = Inr vbd" "Type vbd = VbdTypeDisk"
      "readVBDs_body R ref ((hdd, cdrom), h) =
         Continue ((hdd @ [fillVBDSchema vbd], cdrom), h @ [VBD_Query ref])"
  | (other) vbd where "Query R h (new_VBD ref) = Inr vbd"
      "Type vbd \<noteq> VbdTypeCD" "Type vbd \<noteq> VbdTypeDisk"
      "readVBDs_body R ref ((hdd, cdrom), h) =
         Break ((None, None, Some (UnsupportedVBDType (Type vbd))), h @ [VBD_Query ref])"
proof (cases "Query R h (new_VBD ref)")
  case (Inl err)
  then show thesis by (intro fail [of err]) (simp_all add: readVBDs_body_def)
next
  case (Inr vbd)
  consider "Type vbd = VbdTypeCD" | "Type vbd = VbdTypeDisk"
    | "Type vbd \<noteq> VbdTypeCD" "Type vbd \<noteq> VbdTypeDisk" by blast
  then show thesis
  proof cases
    case 1
    with Inr show thesis by (intro cd [of vbd]) (simp_all add: readVBDs_body_def)
  next
    case 2
    with Inr VbdType_distinct show thesis
      by (intro disk [of vbd]) (simp_all add: readVBDs_body_def)
  next
    case 3
    with Inr show thesis by (intro other [of vbd]) (simp_all add: readVBDs_body_def)
  qed
qed

lemma readVBDs_loop_Break:
  "range_loop (readVBDs_body R) refs ((hdd, cdrom), h) = Break r \<Longrightarrow>
     \<exists>e h'. r = ((None, None, Some e), h')"
proof (induction refs arbitrary: hdd cdrom h)
  case Nil
  then show ?case by simp
next
  case (Cons ref refs)
  show ?case
    by (cases rule: readVBDs_body_cases [of R h ref hdd cdrom])
       (use Cons in \<open>auto\<close>)
qed

lemma readVBDs_loop_unsupported:
  "Inr vbd \<in> set (query_answers R h refs) \<Longrightarrow>
   Type vbd \<noteq> VbdTypeCD \<Longrightarrow> Type vbd \<noteq> VbdTypeDisk \<Longrightarrow>
     \<exists>r. range_loop (readVBDs_body R) refs ((hdd, cdrom), h) = Break r"
proof (induction refs arbitrary: hdd cdrom h)
  case Nil
  then show ?case by simp
next
  case (Cons ref refs)
  show ?case
  proof (cases rule: readVBDs_body_cases [of R h ref hdd cdrom])
    case (fail err)
    then show ?thesis by simp
  next
    case (cd d)
    with Cons.prems have "Inr vbd \<in> set (query_answers R (h @ [VBD_Query ref]) refs)"
      by auto
    from Cons.IH [OF this Cons.prems(2,3)] cd show ?thesis by simp
  next
    case (disk d)
    with Cons.prems have "Inr vbd \<in> set (query_answers R (h @ [VBD_Query ref]) refs)"
      by auto
    from Cons.IH [OF this Cons.prems(2,3)] disk show ?thesis by simp
  next
    case (other d)
    then show ?thesis by simp
  qed
qed

lemma readVBDs_loop_Continue:
  "query_answers R h refs = map Inr ds \<Longrightarrow>
   \<forall>d\<in>set ds. Type d = VbdTypeCD \<or> Type d = VbdTypeDisk \<Longrightarrow>
     range_loop (readVBDs_body R) refs ((hdd, cdrom), h) =
       Continue ((hdd @ map fillVBDSchema (filter (\<lambda>d. Type d = VbdTypeDisk) ds),
                  cdrom @ map fillVBDSchema (filter (\<lambda>d. Type d = VbdTypeCD) ds)),
                 h @ map VBD_Query refs)"
proof (induction refs arbitrary: hdd cdrom h ds)
  case Nil
  then show ?case by simp
next
  case (Cons ref refs)
  from Cons.prems(1) obtain d ds' where ds: "ds = d # ds'"
    and q: "Query R h (new_VBD ref) = Inr d"
    and rest: "query_answers R (h @ [VBD_Query ref]) refs = map Inr ds'"
    by (cases ds) auto
  from Cons.prems(2) ds have kinds: "\<forall>d\<in>set ds'. Type d = VbdTypeCD \<or> Type d = VbdTypeDisk"
    and kind: "Type d = VbdTypeCD \<or> Type d = VbdTypeDisk"
    by simp_all
  show ?case
  proof (cases rule: readVBDs_body_cases [of R h ref hdd cdrom])
    case (fail err)
    with q show ?thesis by simp
  next
    case (cd vbd)
    with q have "vbd = d" by simp
    with cd VbdType_distinct Cons.IH [OF rest kinds] ds show ?thesis by simp
  next
    case (disk vbd)
    with q have "vbd = d" by simp
    with disk VbdType_distinct Cons.IH [OF rest kinds] ds show ?thesis by simp
  next
    case (other vbd)
    with q kind show ?thesis by simp
  qed
qed

text \<open>
  Claim C8.  Let the VM enumerate the attachments \<open>refs\<close>.  If the remote side answers
  the query of one of them with a kind that is neither optical nor disk, \<^verbatim>\<open>readVBDs\<close>
  returns an error and both lists are nil.  If every attachment is queried with success
  and is optical or disk, the hard-drive list holds the records of the disk attachments
  and the optical list those of the optical attachments, in the order enumerated.
  Whenever \<^verbatim>\<open>readVBDs\<close> returns an error, both lists are nil.
\<close>

theorem readVBDs_kinds:
  assumes "GetVBDs R h (VMRef vm) = Inr refs"
  shows "((\<exists>vbd. Inr vbd \<in> set (query_answers R (h @ [VM_GetVBDs (VMRef vm)]) refs) \<and>
            Type vbd \<noteq> VbdTypeCD \<and> Type vbd \<noteq> VbdTypeDisk) \<longrightarrow>
          (\<exists>e. fst (readVBDs R vm h) = (None, None, Some e))) \<and>
         (\<forall>ds. query_answers R (h @ [VM_GetVBDs (VMRef vm)]) refs = map Inr ds \<and>
            (\<forall>d\<in>set ds. Type d = VbdTypeCD \<or> Type d = VbdTypeDisk) \<longrightarrow>
            fst (readVBDs R vm h) =
              (Some (map fillVBDSchema (filter (\<lambda>d. Type d = VbdTypeDisk) ds)),
               Some (map fillVBDSchema (filter (\<lambda>d. Type d = VbdTypeCD) ds)), None)) \<and>
         (\<forall>hdd cdrom e. fst (readVBDs R vm h) = (hdd, cdrom, Some e) \<longrightarrow>
            hdd = None \<and> cdrom = None)"
proof (intro conjI impI allI)
  assume "\<exists>vbd. Inr vbd \<in> set (query_answers R (h @ [VM_GetVBDs (VMRef vm)]) refs) \<and>
            Type vbd \<noteq> VbdTypeCD \<and> Type vbd \<noteq> VbdTypeDisk"
  then obtain r where
    "range_loop (readVBDs_body R) refs (([], []), h @ [VM_GetVBDs (VMRef vm)]) = Break r"
    by (blast dest: readVBDs_loop_unsupported)
  moreover from this obtain e h' where "r = ((None, None, Some e), h')"
    by (blast dest: readVBDs_loop_Break)
  ultimately show "\<exists>e. fst (readVBDs R vm h) = (None, None, Some e)"
    using assms by (simp add: readVBDs_def)
next
  fix ds
  assume "query_answers R (h @ [VM_GetVBDs (VMRef vm)]) refs = map Inr ds \<and>
            (\<forall>d\<in>set ds. Type d = VbdTypeCD \<or> Type d = VbdTypeDisk)"
  then have "range_loop (readVBDs_body R) refs (([], []), h @ [VM_GetVBDs (VMRef vm)]) =
       Continue (([] @ map fillVBDSchema (filter (\<lambda>d. Type d = VbdTypeDisk) ds),
                  [] @ map fillVBDSchema (filter (\<lambda>d. Type d = VbdTypeCD) ds)),
                 (h @ [VM_GetVBDs (VMRef vm)]) @ map VBD_Query refs)"
    by (intro readVBDs_loop_Continue) simp_all
  with assms show "fst (readVBDs R vm h) =
              (Some (map fillVBDSchema (filter (\<lambda>d. Type d = VbdTypeDisk) ds)),
               Some (map fillVBDSchema (filter (\<lambda>d. Type d = VbdTypeCD) ds)), None)"
    by (simp add: readVBDs_def)
next
  fix hdd cdrom e
  assume r: "fst (readVBDs R vm h) = (hdd, cdrom, Some e)"
  have "hdd = None \<and> cdrom = None"
  proof (cases "range_loop (readVBDs_body R) refs (([], []), h @ [VM_GetVBDs (VMRef vm)])")
    case (Continue st)
    with assms r show ?thesis
      by (simp add: readVBDs_def split: prod.splits)
  next
    case (Break b)
    then obtain e' h' where "b = ((None, None, Some e'), h')"
      by (blast dest: readVBDs_loop_Break)
    with Break assms r show ?thesis
      by (simp add: readVBDs_def)
  qed
  then show "hdd = None" and "cdrom = None" by simp_all
qed

theorem readVBDs_kinds_witness:
  "GetVBDs example_remote [] (VMRef example_vm) =
     Inr [''OpaqueRef:vbd0'', ''OpaqueRef:vbd1'', ''OpaqueRef:vbd2''] \<and>
   fst (readVBDs example_remote example_vm []) =
     (Some [fillVBDSchema example_vbd0, fillVBDSchema example_vbd2],
      Some [fillVBDSchema example_vbd1], None) \<and>
   fst (readVBDs (example_remote\<lparr>Query := \<lambda>h d. Inr (d\<lparr>Type := ''Floppy''\<rparr>)\<rparr>) example_vm []) =
     (None, None, Some (UnsupportedVBDType ''Floppy''))"
proof -
  have g: "GetVBDs example_remote [] (VMRef example_vm) =
     Inr [''OpaqueRef:vbd0'', ''OpaqueRef:vbd1'', ''OpaqueRef:vbd2'']"
    by (simp add: example_remote_def)
  have a: "query_answers example_remote ([] @ [VM_GetVBDs (VMRef example_vm)])
      [''OpaqueRef:vbd0'', ''OpaqueRef:vbd1'', ''OpaqueRef:vbd2''] =
      map Inr [example_vbd0, example_vbd1, example_vbd2] \<and>
     (\<forall>d\<in>set [example_vbd0, example_vbd1, example_vbd2].
        Type d = VbdTypeCD \<or> Type d = VbdTypeDisk)"
    by (simp add: example_remote_def example_Query_def new_VBD_def
        example_vbd0_def example_vbd1_def example_vbd2_def)
  have k: "filter (\<lambda>d. Type d = VbdTypeDisk) [example_vbd0, example_vbd1, example_vbd2] =
      [example_vbd0, example_vbd2]"
    "filter (\<lambda>d. Type d = VbdTypeCD) [example_vbd0, example_vbd1, example_vbd2] =
      [example_vbd1]"
    by (simp_all add: example_vbd0_def example_vbd1_def example_vbd2_def
        VbdTypeCD_def VbdTypeDisk_def)
  from readVBDs_kinds [OF g, THEN conjunct2, THEN conjunct1, rule_format, OF a] k
  have "fst (readVBDs example_remote example_vm []) =
     (Some [fillVBDSchema example_vbd0, fillVBDSchema example_vbd2],
      Some [fillVBDSchema example_vbd1], None)"
    by simp
  moreover
  have "fst (readVBDs (example_remote\<lparr>Query := \<lambda>h d. Inr (d\<lparr>Type := ''Floppy''\<rparr>)\<rparr>)
      example_vm []) = (None, None, Some (UnsupportedVBDType ''Floppy''))"
    by (simp add: readVBDs_def readVBDs_body_def example_remote_def new_VBD_def
        VbdTypeCD_def VbdTypeDisk_def)
  ultimately show ?thesis using g by simp
qed

section \<open>The creation flow\<close>

text \<open>
  Claim C2.  For a descriptor with its VM: when the VM reports a non-empty list of
  allowed slots, \<^verbatim>\<open>createVBD\<close> issues \<^verbatim>\<open>VBD.Create\<close> right after that report, with a
  record whose slot is the first of the list, whatever slot the descriptor declares;
  when the list is empty, it returns the error that no device is available and the
  report is the only call it has issued.
\<close>

theorem createVBD_first_allowed_device:
  assumes "VM vbd = Some vm"
  shows "(\<forall>device devices.
            GetAllowedVBDDevices R h (VMRef vm) = Inr (device # devices) \<longrightarrow>
            (\<exists>rest. snd (createVBD R vbd h) =
               h @ [VM_GetAllowedVBDDevices (VMRef vm), VBD_Create (vbdObject vbd vm device)]
                 @ rest) \<and>
            Userdevice (vbdObject vbd vm device) = device) \<and>
         (GetAllowedVBDDevices R h (VMRef vm) = Inr [] \<longrightarrow>
            createVBD R vbd h =
              (Return (None, Some NoAvailableDevices), h @ [VM_GetAllowedVBDDevices (VMRef vm)]))"
proof (intro conjI allI impI)
  fix device devices
  assume "GetAllowedVBDDevices R h (VMRef vm) = Inr (device # devices)"
  with assms
  show "\<exists>rest. snd (createVBD R vbd h) =
      h @ [VM_GetAllowedVBDDevices (VMRef vm), VBD_Create (vbdObject vbd vm device)] @ rest"
    by (simp add: createVBD_def Let_def split: sum.splits option.splits)
  show "Userdevice (vbdObject vbd vm device) = device"
    by (simp add: vbdObject_def)
next
  assume "GetAllowedVBDDevices R h (VMRef vm) = Inr []"
  with assms
  show "createVBD R vbd h =
      (Return (None, Some NoAvailableDevices), h @ [VM_GetAllowedVBDDevices (VMRef vm)])"
    by (simp add: createVBD_def)
qed

theorem createVBD_first_allowed_device_witness:
  "VM ((schema_VBD None False VbdModeRO ''7'')\<lparr>VM := Some example_vm\<rparr>) = Some example_vm \<and>
   GetAllowedVBDDevices example_remote [] (VMRef example_vm) = Inr [''1'', ''2''] \<and>
   (\<exists>rest. snd (createVBD example_remote
        ((schema_VBD None False VbdModeRO ''7'')\<lparr>VM := Some example_vm\<rparr>) []) =
      [VM_GetAllowedVBDDevices (VMRef example_vm),
       VBD_Create (vbdObject ((schema_VBD None False VbdModeRO ''7'')\<lparr>VM := Some example_vm\<rparr>)
         example_vm ''1'')] @ rest) \<and>
   GetAllowedVBDDevices (example_remote\<lparr>GetAllowedVBDDevices := \<lambda>h vm. Inr []\<rparr>) []
     (VMRef example_vm) = Inr [] \<and>
   createVBD (example_remote\<lparr>GetAllowedVBDDevices := \<lambda>h vm. Inr []\<rparr>)
     ((schema_VBD None False VbdModeRO ''7'')\<lparr>VM := Some example_vm\<rparr>) [] =
     (Return (None, Some NoAvailableDevices), [VM_GetAllowedVBDDevices (VMRef example_vm)])"
proof -
  have v: "VM ((schema_VBD None False VbdModeRO ''7'')\<lparr>VM := Some example_vm\<rparr>) =
      Some example_vm"
    by simp
  have g: "GetAllowedVBDDevices example_remote [] (VMRef example_vm) = Inr [''1'', ''2'']"
    by (simp add: example_remote_def)
  have e: "GetAllowedVBDDevices (example_remote\<lparr>GetAllowedVBDDevices := \<lambda>h vm. Inr []\<rparr>) []
     (VMRef example_vm) = Inr []"
    by simp
  from createVBD_first_allowed_device [OF v, of example_remote "[]"] g
  have "\<exists>rest. snd (createVBD example_remote
        ((schema_VBD None False VbdModeRO ''7'')\<lparr>VM := Some example_vm\<rparr>) []) =
      [VM_GetAllowedVBDDevices (VMRef example_vm),
       VBD_Create (vbdObject ((schema_VBD None False VbdModeRO ''7'')\<lparr>VM := Some example_vm\<rparr>)
         example_vm ''1'')] @ rest"
    by simp
  moreover
  from createVBD_first_allowed_device [OF v,
      of "example_remote\<lparr>GetAllowedVBDDevices := \<lambda>h vm. Inr []\<rparr>" "[]"] e
  have "createVBD (example_remote\<lparr>GetAllowedVBDDevices := \<lambda>h vm. Inr []\<rparr>)
     ((schema_VBD None False VbdModeRO ''7'')\<lparr>VM := Some example_vm\<rparr>) [] =
     (Return (None, Some NoAvailableDevices), [VM_GetAllowedVBDDevices (VMRef example_vm)])"
    by simp
  ultimately show ?thesis using v g e by blast
qed

section \<open>The template-binding flow\<close>
























text \<open>
  Claim C1, at an input where it fails.  The query of the first attachment fails; the
  flow returns nil, not the error, while \<^verbatim>\<open>queryTemplateVBDs\<close> and \<^verbatim>\<open>readVBDs\<close> return
  the error of the same failed query.
\<close>

theorem readTemplateVBDsToSchema_query_error_lost:
  "Query (example_remote\<lparr>Query := \<lambda>h d. Inl (RemoteError ''HANDLE_INVALID'')\<rparr>)
     [VM_GetVBDs ''OpaqueRef:vm''] (new_VBD ''OpaqueRef:vbd0'') =
     Inl (RemoteError ''HANDLE_INVALID'') \<and>
   readTemplateVBDsToSchema
     (example_remote\<lparr>Query := \<lambda>h d. Inl (RemoteError ''HANDLE_INVALID'')\<rparr>)
     example_vm [example_template_record] VbdTypeDisk [] =
     (Return None, [example_template_record],
      [VM_GetVBDs ''OpaqueRef:vm'', VBD_Query ''OpaqueRef:vbd0'']) \<and>
   queryTemplateVBDs
     (example_remote\<lparr>Query := \<lambda>h d. Inl (RemoteError ''HANDLE_INVALID'')\<rparr>) example_vm [] =
     ((None, Some (RemoteError ''HANDLE_INVALID'')),
      [VM_GetVBDs ''OpaqueRef:vm'', VBD_Query ''OpaqueRef:vbd0'']) \<and>
   readVBDs
     (example_remote\<lparr>Query := \<lambda>h d. Inl (RemoteError ''HANDLE_INVALID'')\<rparr>) example_vm [] =
     ((None, None, Some (RemoteError ''HANDLE_INVALID'')),
      [VM_GetVBDs ''OpaqueRef:vm'', VBD_Query ''OpaqueRef:vbd0''])"
  by (simp add: readTemplateVBDsToSchema_def readTemplateVBDsToSchema_body_def
      queryTemplateVBDs_def queryTemplateVBDs_body_def readVBDs_def readVBDs_body_def
      example_remote_def example_vm_def)

end
